theory Spec2Isabelle
  imports Main "HOL-Library.Word"
begin

section \<open>Launcher utilities: \<open>src/tools/launcher/util/launcher_util.cc\<close>\<close>

text \<open>
  A \<open>std::string\<close> is a \<open>string\<close> (a list of bytes). The three characters the
  functions below single out are written by their codes: \<open>CHR 0x20\<close> is the space,
  \<open>CHR 0x22\<close> the double quote and \<open>CHR 0x5C\<close> the backslash.
\<close>

subsection \<open>The parts of \<open>std::string\<close> the launcher uses\<close>

text \<open>
  \<open>size_type\<close> is an unsigned 64-bit integer. A search result is \<open>None\<close> for
  \<open>string::npos\<close> and \<open>Some i\<close> for the position \<open>i\<close>.
\<close>

type_synonym size_type = "64 word"

text \<open>\<open>s.find_first_of(c)\<close>: the first position of the character \<open>c\<close> in \<open>s\<close>.\<close>

fun find_first_of :: "string \<Rightarrow> char \<Rightarrow> nat option" where
  "find_first_of [] c = None"
| "find_first_of (x # xs) c =
     (if x = c then Some 0 else map_option Suc (find_first_of xs c))"

text \<open>
  \<open>s.find(t, pos)\<close>: the first position \<open>i \<ge> pos\<close> at which \<open>t\<close> occurs in \<open>s\<close>
  (so \<open>i + t.size() \<le> s.size()\<close>), \<open>npos\<close> when there is none. \<open>find_from\<close> is the
  search loop, started at \<open>pos\<close>.
\<close>

function find_from :: "string \<Rightarrow> string \<Rightarrow> nat \<Rightarrow> nat option" where
  "find_from s t i =
     (if length s < i + length t then None
      else if take (length t) (drop i s) = t then Some i
      else find_from s t (Suc i))"
  by pat_completeness auto
termination
  by (relation "measure (\<lambda>(s, t, i). Suc (length s) - i)") auto

declare find_from.simps [simp del]

definition find_str :: "string \<Rightarrow> string \<Rightarrow> size_type \<Rightarrow> nat option" where
  "find_str s t pos = find_from s t (unat pos)"

text \<open>\<open>s.size()\<close> and \<open>s.length()\<close>, as a \<open>size_type\<close>.\<close>

definition size_of :: "string \<Rightarrow> size_type" where
  "size_of s = of_nat (length s)"

text \<open>
  \<open>s.substr(pos, n)\<close>. It throws \<open>std::out_of_range\<close> only when \<open>pos > s.size()\<close>; the
  launcher calls it with \<open>pos = 0\<close> alone, where that cannot happen.
\<close>

definition substr :: "string \<Rightarrow> size_type \<Rightarrow> size_type \<Rightarrow> string" where
  "substr s pos n = take (unat n) (drop (unat pos) s)"

subsection \<open>\<open>GetBinaryPathWithoutExtension\<close> and \<open>GetBinaryPathWithExtension\<close>\<close>

text \<open>
  \<open>binary.size() - 4\<close> is computed in \<open>size_type\<close>: for a string shorter than four
  characters it wraps around modulo \<open>2 ^ 64\<close>.
\<close>

definition GetBinaryPathWithoutExtension :: "string \<Rightarrow> string" where
  "GetBinaryPathWithoutExtension binary =
     (if find_str binary ''.exe'' (size_of binary - 4) \<noteq> None
      then substr binary 0 (size_of binary - 4)
      else binary)"

definition GetBinaryPathWithExtension :: "string \<Rightarrow> string" where
  "GetBinaryPathWithExtension binary = GetBinaryPathWithoutExtension binary @ ''.exe''"

subsection \<open>\<open>GetEscapedArgument\<close>\<close>

text \<open>
  The \<open>while\<close> loop over the iterator \<open>it\<close>: the first argument is the part of the
  argument from \<open>it\<close> to the end, the second is what \<open>escaped_arg\<close> holds so far.
\<close>

fun escape_loop :: "string \<Rightarrow> string \<Rightarrow> string" where
  "escape_loop [] escaped_arg = escaped_arg"
| "escape_loop (ch # it) escaped_arg =
     escape_loop it
       (if ch = CHR 0x22 then escaped_arg @ [CHR 0x5C, CHR 0x22]
        else if ch = CHR 0x5C then escaped_arg @ [CHR 0x5C, CHR 0x5C]
        else escaped_arg @ [ch])"

definition GetEscapedArgument :: "string \<Rightarrow> string" where
  "GetEscapedArgument argument =
     (let has_space = (find_first_of argument (CHR 0x20) \<noteq> None);
          escaped_arg = (if has_space then [CHR 0x22] else []);
          escaped_arg = escape_loop argument escaped_arg;
          escaped_arg = (if has_space then escaped_arg @ [CHR 0x22] else escaped_arg)
      in escaped_arg)"

subsection \<open>Environment variables: \<open>GetEnv\<close> and \<open>SetEnv\<close>\<close>

text \<open>
  The environment block of the process maps a variable's name to its value. Names and
  values cross the interface of the platform as C strings: \<open>s.c_str()\<close> read as a
  \<open>const char*\<close> ends at the first NUL byte of \<open>s\<close>.
\<close>

type_synonym environment = "string \<rightharpoonup> string"

definition c_str :: "string \<Rightarrow> string" where
  "c_str s = takeWhile (\<lambda>c. c \<noteq> CHR 0x00) s"

definition BUFFER_SIZE :: nat where
  "BUFFER_SIZE = 32767"

text \<open>
  Modelled from the spec: the platform calls \<open>GetEnvironmentVariableA\<close> and
  \<open>SetEnvironmentVariableA\<close> belong to the operating system, not to the repository.
  \<open>GetEnvironmentVariableA name buffer nSize\<close> returns the number of characters it
  stored in the buffer, the terminating NUL not counted: 0 for a variable that is not
  set, and 0 as well for a variable whose value is empty. When the value and its NUL do
  not fit in \<open>nSize\<close> characters it returns the size the buffer needs and leaves the
  buffer's contents undefined (\<open>None\<close> below). \<open>SetEnvironmentVariableA name value\<close>
  stores the value under the name and reports success, or reports failure and changes
  nothing; whether the platform accepts the call is the parameter \<open>accepted\<close>.
  (The platform compares names without regard to case; every property below looks a
  name up under the spelling it was stored with.)
\<close>

definition GetEnvironmentVariableA ::
  "environment \<Rightarrow> string \<Rightarrow> nat \<Rightarrow> nat \<times> string option" where
  "GetEnvironmentVariableA env lpName nSize =
     (case env lpName of
        None \<Rightarrow> (0, None)
      | Some v \<Rightarrow> if length v < nSize then (length v, Some v) else (length v + 1, None))"

definition SetEnvironmentVariableA ::
  "bool \<Rightarrow> environment \<Rightarrow> string \<Rightarrow> string \<Rightarrow> bool \<times> environment" where
  "SetEnvironmentVariableA accepted env lpName lpValue =
     (if accepted then (True, env(lpName \<mapsto> lpValue)) else (False, env))"

text \<open>
  What a function does besides returning: reading memory that nothing has written.
\<close>

datatype fault = Uninitialised_read

text \<open>
  \<open>GetEnv env env_name value\<close> returns the function's result together with what
  \<open>*value\<close> holds afterwards (\<open>value\<close> is what it held before). \<open>*value = buffer\<close>
  reads the buffer as a C string; when the platform has not filled the buffer, that
  read is a fault.
\<close>

definition GetEnv :: "environment \<Rightarrow> string \<Rightarrow> string \<Rightarrow> fault + (bool \<times> string)" where
  "GetEnv env env_name value =
     (case GetEnvironmentVariableA env (c_str env_name) BUFFER_SIZE of
        (n, buffer) \<Rightarrow>
          if n = 0 then Inr (False, value)
          else (case buffer of
                  None \<Rightarrow> Inl Uninitialised_read
                | Some b \<Rightarrow> Inr (True, c_str b)))"

definition SetEnv :: "bool \<Rightarrow> environment \<Rightarrow> string \<Rightarrow> string \<Rightarrow> bool \<times> environment" where
  "SetEnv accepted env env_name value =
     SetEnvironmentVariableA accepted env (c_str env_name) (c_str value)"

subsection \<open>\<open>GetRandomStr\<close>\<close>

definition alphabet :: string where
  "alphabet = ''ABCDEFGHIJKLMNOPQRSTUVWXYZabcdefghijklmnopqrstuvwxyz0123456789''"

definition strlen :: "string \<Rightarrow> nat" where
  "strlen s = length (c_str s)"

text \<open>
  The random source is the sequence of values that the calls of \<open>rand_s\<close> store in
  \<open>x\<close>: iteration \<open>i\<close> of the loop makes the \<open>i\<close>-th call. \<open>x\<close> is an
  \<open>unsigned int\<close>; in \<open>x % strlen(alphabet)\<close> it is converted to \<open>size_t\<close>, so the
  remainder is that of its unsigned value.
\<close>

function GetRandomStr_loop :: "(nat \<Rightarrow> 32 word) \<Rightarrow> nat \<Rightarrow> nat \<Rightarrow> string \<Rightarrow> string" where
  "GetRandomStr_loop rand_s len i rand_str =
     (if i < len
      then GetRandomStr_loop rand_s len (Suc i)
             (rand_str @ [alphabet ! (unat (rand_s i) mod strlen alphabet)])
      else rand_str)"
  by pat_completeness auto
termination
  by (relation "measure (\<lambda>(rand_s, len, i, rand_str). len - i)") auto

declare GetRandomStr_loop.simps [simp del]

definition GetRandomStr :: "(nat \<Rightarrow> 32 word) \<Rightarrow> nat \<Rightarrow> string" where
  "GetRandomStr rand_s len = GetRandomStr_loop rand_s len 0 []"

subsection \<open>\<open>GetLastErrorString\<close>\<close>

text \<open>\<open>result << last_error\<close> writes the \<open>DWORD\<close> in decimal.\<close>

function show_dec :: "nat \<Rightarrow> string" where
  "show_dec n =
     (if n < 10 then [char_of (48 + n)]
      else show_dec (n div 10) @ [char_of (48 + n mod 10)])"
  by pat_completeness auto
termination
  by (relation "measure id") auto

declare show_dec.simps [simp del]

text \<open>
  The parameters are the platform's: \<open>last_error\<close> is what \<open>GetLastError()\<close> returns,
  and \<open>FormatMessageA\<close> gives, for an error code, the message the platform allocates
  and stores in \<open>message_buffer\<close>, or \<open>None\<close> when it has no message for the code: it
  then returns 0 and stores nothing. The function does not look at the returned size,
  and \<open>message_buffer\<close> has no initial value.
\<close>

definition GetLastErrorString :: "32 word \<Rightarrow> (32 word \<Rightarrow> string option) \<Rightarrow> fault + string" where
  "GetLastErrorString last_error FormatMessageA =
     (if last_error = 0 then Inr []
      else (case FormatMessageA last_error of
              None \<Rightarrow> Inl Uninitialised_read
            | Some message_buffer \<Rightarrow>
                Inr (''(error: '' @ show_dec (unat last_error) @ ''): '' @ message_buffer)))"

subsection \<open>\<open>die\<close> and \<open>AsAbsoluteWindowsPath\<close>\<close>

text \<open>
  A call either returns a value to its caller or ends the process with an exit code;
  \<open>Undefined\<close> stands for a call whose behaviour C leaves undefined or that is
  outside what is modelled here. The process state is what has been written to the
  standard error stream.
\<close>

datatype 'a outcome = Returns 'a | Exits int | Undefined

record process =
  stderr :: string

text \<open>
  \<open>vfprintf\<close> with string arguments: \<open>%s\<close> is replaced by the next argument,
  \<open>%%\<close> prints one \<open>%\<close>, every other character is copied. The result is
  \<open>None\<close> for a \<open>%s\<close> with no argument left and for a \<open>%\<close> at the end of the
  format (both undefined in C), and for every other conversion (\<open>%d\<close>, flags,
  widths), which is not modelled; the launcher's call below uses \<open>%s\<close> alone.
\<close>

fun vfprintf :: "string \<Rightarrow> string list \<Rightarrow> string option" where
  "vfprintf [] ap = Some []"
| "vfprintf [c] ap = (if c = CHR 0x25 then None else Some [c])"
| "vfprintf (c # d # fmt) ap =
     (if c \<noteq> CHR 0x25 then map_option ((#) c) (vfprintf (d # fmt) ap)
      else if d = CHR 0x25 then map_option ((#) (CHR 0x25)) (vfprintf fmt ap)
      else if d = CHR ''s''
      then (case ap of [] \<Rightarrow> None | a # ap' \<Rightarrow> map_option ((@) a) (vfprintf fmt ap'))
      else None)"

text \<open>
  \<open>die\<close> writes the prefix with \<open>fputs\<close>, then the message with \<open>vfprintf\<close>, then
  the newline, and calls \<open>exit(1)\<close>.
\<close>

definition die :: "string \<Rightarrow> string list \<Rightarrow> process \<Rightarrow> process \<times> 'a outcome" where
  "die fmt ap p =
     (case vfprintf fmt ap of
        None \<Rightarrow> (p\<lparr>stderr := stderr p @ ''LAUNCHER ERROR: ''\<rparr>, Undefined)
      | Some message \<Rightarrow>
          (p\<lparr>stderr := stderr p @ ''LAUNCHER ERROR: '' @ message @ [CHR 0x0A]\<rparr>, Exits 1))"

text \<open>
  \<open>blaze_util::AsAbsoluteWindowsPath\<close> is declared in
  \<open>src/main/cpp/util/file_platform.h\<close>; it is the parameter \<open>convert\<close>, \<open>None\<close> when it
  returns false and \<open>Some wpath\<close> when it returns true with \<open>wpath\<close> stored. A
  \<open>wstring\<close> is a list of 16-bit characters.
\<close>

type_synonym wstring = "16 word list"

definition AsAbsoluteWindowsPath ::
  "(string \<Rightarrow> wstring option) \<Rightarrow> string \<Rightarrow> process \<Rightarrow> process \<times> wstring outcome" where
  "AsAbsoluteWindowsPath convert path p =
     (case convert path of
        None \<Rightarrow>
          die (''Couldn'' @ [CHR 0x27] @ ''t convert %s to absoulte Windows path.'') [path] p
      | Some wpath \<Rightarrow> (p, Returns wpath))"

section \<open>Properties\<close>

subsection \<open>Argument escaping\<close>

lemma find_first_of_None: "find_first_of s c = None \<longleftrightarrow> c \<notin> set s"
  by (induction s) auto

lemma escape_loop_concat:
  "escape_loop it acc =
     acc @ concat (map (\<lambda>c. if c = CHR 0x22 then [CHR 0x5C, CHR 0x22]
                             else if c = CHR 0x5C then [CHR 0x5C, CHR 0x5C]
                             else [c]) it)"
  by (induction it arbitrary: acc) auto

lemma escape_loop_plain:
  "CHR 0x22 \<notin> set it \<Longrightarrow> CHR 0x5C \<notin> set it \<Longrightarrow> escape_loop it acc = acc @ it"
  by (induction it arbitrary: acc) auto

text \<open>
  C1. For every argument \<open>x\<close>, \<open>GetEscapedArgument x\<close> is the concatenation of a leading
  double quote if \<open>x\<close> contains a space, the character-by-character transform of \<open>x\<close>
  that replaces each double quote by backslash-quote, each backslash by two backslashes
  (every one, whatever follows it) and keeps every other character, and a trailing
  double quote if \<open>x\<close> contains a space.
\<close>

theorem GetEscapedArgument_spec:
  "GetEscapedArgument x =
     (if CHR 0x20 \<in> set x then [CHR 0x22] else [])
     @ concat (map (\<lambda>c. if c = CHR 0x22 then [CHR 0x5C, CHR 0x22]
                         else if c = CHR 0x5C then [CHR 0x5C, CHR 0x5C]
                         else [c]) x)
     @ (if CHR 0x20 \<in> set x then [CHR 0x22] else [])"
  by (simp add: GetEscapedArgument_def Let_def find_first_of_None escape_loop_concat)

text \<open>
  The examples of the specification: \<open>a"b\<close> becomes \<open>a\"b\<close>, \<open>a\b\<close> becomes \<open>a\\b\<close>, and
  an argument with a space is quoted.
\<close>

theorem GetEscapedArgument_spec_witness:
  "GetEscapedArgument [CHR ''a'', CHR 0x22, CHR ''b''] = [CHR ''a'', CHR 0x5C, CHR 0x22, CHR ''b'']
   \<and> GetEscapedArgument [CHR ''a'', CHR 0x5C, CHR ''b''] = [CHR ''a'', CHR 0x5C, CHR 0x5C, CHR ''b'']
   \<and> GetEscapedArgument ''a b'' = [CHR 0x22] @ ''a b'' @ [CHR 0x22]"
  using GetEscapedArgument_spec [of "[CHR ''a'', CHR 0x22, CHR ''b'']"]
    GetEscapedArgument_spec [of "[CHR ''a'', CHR 0x5C, CHR ''b'']"]
    GetEscapedArgument_spec [of "''a b''"]
  by simp

text \<open>
  C2. On an argument with no space, no double quote and no backslash,
  \<open>GetEscapedArgument\<close> is the identity.
\<close>

theorem GetEscapedArgument_identity:
  assumes "CHR 0x20 \<notin> set x" and "CHR 0x22 \<notin> set x" and "CHR 0x5C \<notin> set x"
  shows "GetEscapedArgument x = x"
  using assms
  by (simp add: GetEscapedArgument_def Let_def find_first_of_None escape_loop_plain)

theorem GetEscapedArgument_identity_witness:
  "CHR 0x20 \<notin> set ''--flag=value'' \<and> CHR 0x22 \<notin> set ''--flag=value''
   \<and> CHR 0x5C \<notin> set ''--flag=value''
   \<and> GetEscapedArgument ''--flag=value'' = ''--flag=value''"
  using GetEscapedArgument_identity [of "''--flag=value''"] by simp

subsection \<open>The executable suffix\<close>

lemma find_from_short: "length s < i + length t \<Longrightarrow> find_from s t i = None"
  by (subst find_from.simps) simp

lemma find_from_last:
  "length s = i + length t \<Longrightarrow> find_from s t i = (if drop i s = t then Some i else None)"
  by (subst find_from.simps) (simp add: find_from_short)

lemma unat_size_of: "length p < 2 ^ 64 \<Longrightarrow> unat (size_of p) = length p"
  by (simp add: size_of_def unat_of_nat)

text \<open>The subtraction in \<open>size_type\<close>: exact from four characters on, wrapped below.\<close>

lemma unat_size_sub:
  assumes "length p < 2 ^ 64"
  shows "unat (size_of p - 4) =
           (if 4 \<le> length p then length p - 4 else length p + 2 ^ 64 - 4)"
proof -
  have "unat (size_of p - 4) =
          (if unat (4 :: 64 word) \<le> unat (size_of p)
           then unat (size_of p) - unat (4 :: 64 word)
           else unat (size_of p) + 2 ^ 64 - unat (4 :: 64 word))"
    by (simp only: unat_sub_if_size [of "size_of p" 4] word_size len_bit0 len_num1)
       simp
  then show ?thesis
    using assms by (simp add: unat_size_of)
qed

lemma find_str_short:
  assumes "length p < 4"
  shows "find_str p ''.exe'' (size_of p - 4) = None"
proof -
  have "unat (size_of p - 4) = length p + 2 ^ 64 - 4"
    using assms by (simp add: unat_size_sub)
  moreover have "find_from p ''.exe'' (length p + 2 ^ 64 - 4) = None"
    using assms by (intro find_from_short) simp
  ultimately show ?thesis
    by (simp add: find_str_def)
qed

lemma strip_char:
  assumes "length p < 2 ^ 64"
  shows "GetBinaryPathWithoutExtension p =
           (if 4 \<le> length p \<and> drop (length p - 4) p = ''.exe''
            then take (length p - 4) p else p)"
proof (cases "4 \<le> length p")
  case True
  then have "unat (size_of p - 4) = length p - 4"
    using assms by (simp add: unat_size_sub)
  moreover have "find_from p ''.exe'' (length p - 4)
      = (if drop (length p - 4) p = ''.exe'' then Some (length p - 4) else None)"
    using True by (intro find_from_last) simp
  ultimately show ?thesis
    using True by (simp add: GetBinaryPathWithoutExtension_def find_str_def substr_def)
next
  case False
  then have "find_str p ''.exe'' (size_of p - 4) = None"
    by (intro find_str_short) simp
  then show ?thesis
    using False by (simp add: GetBinaryPathWithoutExtension_def)
qed

lemma strip_append_exe:
  assumes "length q + 4 < 2 ^ 64"
  shows "GetBinaryPathWithoutExtension (q @ ''.exe'') = q"
proof -
  have "length (q @ ''.exe'') < 2 ^ 64"
    using assms by simp
  then show ?thesis
    by (simp add: strip_char)
qed

lemma length_strip: "length p < 2 ^ 64 \<Longrightarrow> length (GetBinaryPathWithoutExtension p) \<le> length p"
  by (simp add: strip_char)

text \<open>
  C4, as the claim states it, fails in its last part: for a path shorter than four
  characters the trailing-match check does underflow. For \<open>exe\<close> the size 3 is below
  4, and \<open>size() - 4\<close> is not \<open>-1\<close> but \<open>2 ^ 64 - 1\<close>.
\<close>

theorem size_sub_underflow_counterexample:
  "unat (size_of ''exe'') < unat (4 :: size_type)
   \<and> unat (size_of ''exe'' - 4) = 18446744073709551615
   \<and> int (unat (size_of ''exe'' - 4)) \<noteq> int (length ''exe'') - 4"
proof -
  have "unat (size_of ''exe'') = 3"
    by (simp add: unat_size_of)
  moreover have "unat (size_of ''exe'' - 4) = 18446744073709551615"
    by (simp add: unat_size_sub)
  ultimately show ?thesis
    by simp
qed

text \<open>
  C4, amended. For every path \<open>p\<close> (a \<open>std::string\<close>, so shorter than \<open>2 ^ 64\<close>),
  \<open>GetBinaryPathWithoutExtension p\<close> is \<open>p\<close> without its last four characters exactly
  when these are \<open>.exe\<close>, compared character by character, and \<open>p\<close> itself otherwise.
  For \<open>p\<close> shorter than four characters the start position \<open>size() - 4\<close> wraps
  around to \<open>2 ^ 64 - 4 + size()\<close>, which lies beyond the end of \<open>p\<close>; \<open>find\<close>
  reports no match there, and \<open>p\<close> is returned unchanged.
\<close>

theorem GetBinaryPathWithoutExtension_spec:
  assumes "length p < 2 ^ 64"
  shows "GetBinaryPathWithoutExtension p =
           (if 4 \<le> length p \<and> drop (length p - 4) p = ''.exe''
            then take (length p - 4) p else p)
         \<and> (length p < 4 \<longrightarrow>
              unat (size_of p - 4) = 2 ^ 64 - 4 + length p
              \<and> length p < unat (size_of p - 4)
              \<and> find_str p ''.exe'' (size_of p - 4) = None
              \<and> GetBinaryPathWithoutExtension p = p)"
proof -
  have "unat (size_of p - 4) = 2 ^ 64 - 4 + length p" if "length p < 4"
    using that assms by (simp add: unat_size_sub)
  moreover have "length p < unat (size_of p - 4)" if "length p < 4"
    using that assms by (simp add: unat_size_sub)
  moreover have "GetBinaryPathWithoutExtension p = p" if "length p < 4"
    using that assms by (simp add: strip_char)
  ultimately show ?thesis
    using assms by (simp add: strip_char find_str_short)
qed

theorem GetBinaryPathWithoutExtension_spec_witness:
  "GetBinaryPathWithoutExtension ''foo/bar/bin.exe'' = ''foo/bar/bin''
   \<and> GetBinaryPathWithoutExtension ''foo/bar/bin.EXE'' = ''foo/bar/bin.EXE''
   \<and> GetBinaryPathWithoutExtension ''.exe'' = []
   \<and> unat (size_of ''exe'' - 4) = 2 ^ 64 - 1
   \<and> length ''exe'' < unat (size_of ''exe'' - 4)
   \<and> find_str ''exe'' ''.exe'' (size_of ''exe'' - 4) = None
   \<and> GetBinaryPathWithoutExtension ''exe'' = ''exe''
   \<and> GetBinaryPathWithoutExtension [] = []"
  using GetBinaryPathWithoutExtension_spec [of "''foo/bar/bin.exe''"]
    GetBinaryPathWithoutExtension_spec [of "''foo/bar/bin.EXE''"]
    GetBinaryPathWithoutExtension_spec [of "''.exe''"]
    GetBinaryPathWithoutExtension_spec [of "''exe''"]
    GetBinaryPathWithoutExtension_spec [of "[]"]
  by simp

text \<open>
  C5. Stripping after adding the suffix is the same as stripping:
  \<open>GetBinaryPathWithoutExtension (GetBinaryPathWithExtension p) =
  GetBinaryPathWithoutExtension p\<close>, for every \<open>p\<close> whose extended path is still a
  \<open>std::string\<close>.
\<close>

theorem strip_after_add:
  assumes "length p + 4 < 2 ^ 64"
  shows "GetBinaryPathWithoutExtension (GetBinaryPathWithExtension p)
           = GetBinaryPathWithoutExtension p"
proof -
  have "length p < 2 ^ 64"
    using assms by simp
  then have "length (GetBinaryPathWithoutExtension p) \<le> length p"
    by (rule length_strip)
  with assms have "length (GetBinaryPathWithoutExtension p) + 4 < 2 ^ 64"
    by simp
  then show ?thesis
    unfolding GetBinaryPathWithExtension_def by (rule strip_append_exe)
qed

theorem strip_after_add_witness:
  "GetBinaryPathWithoutExtension (GetBinaryPathWithExtension ''foo/bar.exe'') = ''foo/bar''
   \<and> GetBinaryPathWithoutExtension ''foo/bar.exe'' = ''foo/bar''
   \<and> GetBinaryPathWithoutExtension (GetBinaryPathWithExtension ''ab'') = ''ab''
   \<and> GetBinaryPathWithoutExtension ''ab'' = ''ab''"
  using strip_after_add [of "''foo/bar.exe''"] strip_after_add [of "''ab''"]
  by (simp add: strip_char)

text \<open>
  C6. \<open>GetBinaryPathWithExtension\<close> maps \<open>foo/bar\<close> to \<open>foo/bar.exe\<close> and leaves
  \<open>foo/bar.exe\<close> as it is. In general it strips a trailing \<open>.exe\<close> and then appends
  \<open>.exe\<close>: a path that ends in \<open>.exe\<close> is returned unchanged (the suffix is not
  doubled), any other path gets the suffix appended.
\<close>

theorem GetBinaryPathWithExtension_spec:
  "GetBinaryPathWithExtension ''foo/bar'' = ''foo/bar.exe''
   \<and> GetBinaryPathWithExtension ''foo/bar.exe'' = ''foo/bar.exe''
   \<and> (\<forall>p. GetBinaryPathWithExtension p = GetBinaryPathWithoutExtension p @ ''.exe'')
   \<and> (\<forall>p. length p < 2 ^ 64 \<longrightarrow>
          GetBinaryPathWithExtension p =
            (if 4 \<le> length p \<and> drop (length p - 4) p = ''.exe'' then p else p @ ''.exe''))"
proof -
  have "GetBinaryPathWithExtension p =
          (if 4 \<le> length p \<and> drop (length p - 4) p = ''.exe'' then p else p @ ''.exe'')"
    if "length p < 2 ^ 64" for p
  proof (cases "4 \<le> length p \<and> drop (length p - 4) p = ''.exe''")
    case True
    then have "take (length p - 4) p @ ''.exe'' = p"
      by (metis append_take_drop_id)
    with True that show ?thesis
      by (simp add: GetBinaryPathWithExtension_def strip_char)
  next
    case False
    have "GetBinaryPathWithoutExtension p =
            (if 4 \<le> length p \<and> drop (length p - 4) p = ''.exe''
             then take (length p - 4) p else p)"
      using that by (rule strip_char)
    then have "GetBinaryPathWithoutExtension p = p"
      by (simp only: False if_False)
    with False show ?thesis
      by (simp only: GetBinaryPathWithExtension_def if_False)
  qed
  then have general: "\<forall>p. length p < 2 ^ 64 \<longrightarrow>
      GetBinaryPathWithExtension p =
        (if 4 \<le> length p \<and> drop (length p - 4) p = ''.exe'' then p else p @ ''.exe'')"
    by blast
  have bare: "GetBinaryPathWithExtension ''foo/bar'' = ''foo/bar.exe''"
    by (simp add: GetBinaryPathWithExtension_def strip_char)
  have suffixed: "GetBinaryPathWithExtension ''foo/bar.exe'' = ''foo/bar.exe''"
    by (simp add: GetBinaryPathWithExtension_def strip_char)
  have "\<forall>p. GetBinaryPathWithExtension p = GetBinaryPathWithoutExtension p @ ''.exe''"
    by (simp add: GetBinaryPathWithExtension_def)
  with bare suffixed general show ?thesis
    by (intro conjI)
qed

theorem GetBinaryPathWithExtension_spec_witness:
  "GetBinaryPathWithExtension ''bin.exe.exe'' = ''bin.exe.exe''
   \<and> GetBinaryPathWithExtension ''bin.ex'' = ''bin.ex.exe''
   \<and> GetBinaryPathWithExtension [] = ''.exe''"
proof -
  from GetBinaryPathWithExtension_spec
  have general: "length p < 2 ^ 64 \<longrightarrow>
      GetBinaryPathWithExtension p =
        (if 4 \<le> length p \<and> drop (length p - 4) p = ''.exe'' then p else p @ ''.exe'')" for p
    by (elim conjE allE)
  show ?thesis
    using general [of "''bin.exe.exe''"] general [of "''bin.ex''"] general [of "[]"]
    by simp
qed

subsection \<open>Environment variables\<close>

lemma c_str_idem: "c_str (c_str s) = c_str s"
  by (simp add: c_str_def takeWhile_idem)

lemma c_str_no_NUL: "CHR 0x00 \<notin> set s \<Longrightarrow> c_str s = s"
  by (auto simp: c_str_def)

lemma GetEnv_unset: "env (c_str name) = None \<Longrightarrow> GetEnv env name value = Inr (False, value)"
  by (simp add: GetEnv_def GetEnvironmentVariableA_def)

lemma GetEnv_empty: "env (c_str name) = Some [] \<Longrightarrow> GetEnv env name value = Inr (False, value)"
  by (simp add: GetEnv_def GetEnvironmentVariableA_def BUFFER_SIZE_def)

lemma GetEnv_set:
  "env (c_str name) = Some v \<Longrightarrow> v \<noteq> [] \<Longrightarrow> length v < BUFFER_SIZE \<Longrightarrow>
   GetEnv env name value = Inr (True, c_str v)"
  by (simp add: GetEnv_def GetEnvironmentVariableA_def)

text \<open>
  A value that does not fit the buffer: the platform call returns the size it needs,
  which is not zero, and the function goes on to read the buffer it was not given.
\<close>

lemma GetEnv_long:
  "env (c_str name) = Some v \<Longrightarrow> BUFFER_SIZE \<le> length v \<Longrightarrow>
   GetEnv env name value = Inl Uninitialised_read"
  by (simp add: GetEnv_def GetEnvironmentVariableA_def)

lemma SetEnv_success:
  "SetEnv accepted env name v = (True, env') \<Longrightarrow> env' = env(c_str name \<mapsto> c_str v)"
  by (auto simp: SetEnv_def SetEnvironmentVariableA_def split: if_splits)

text \<open>A value with a NUL byte is stored up to that byte only.\<close>

lemma SetEnv_GetEnv_NUL:
  "GetEnv (snd (SetEnv True Map.empty ''VAR'' [CHR ''a'', CHR 0x00, CHR ''b''])) ''VAR'' ''old''
     = Inr (True, ''a'')"
  by (simp add: SetEnv_def SetEnvironmentVariableA_def GetEnv_def GetEnvironmentVariableA_def
      c_str_def BUFFER_SIZE_def)

text \<open>
  C3, as the claim states it, fails for the empty value: \<open>SetEnv\<close> succeeds, and
  \<open>GetEnv\<close> then returns false and leaves \<open>*value\<close> as it was, instead of
  succeeding with the empty string.
\<close>

theorem SetEnv_GetEnv_empty_counterexample:
  "fst (SetEnv True Map.empty ''VAR'' []) = True
   \<and> GetEnv (snd (SetEnv True Map.empty ''VAR'' [])) ''VAR'' ''old'' = Inr (False, ''old'')
   \<and> GetEnv (snd (SetEnv True Map.empty ''VAR'' [])) ''VAR'' ''old'' \<noteq> Inr (True, [])"
  by (simp add: SetEnv_def SetEnvironmentVariableA_def GetEnv_def GetEnvironmentVariableA_def
      c_str_def BUFFER_SIZE_def)

text \<open>
  C3, amended. For every name and every value \<open>v\<close> that is not empty, has no NUL byte
  and is shorter than \<open>BUFFER_SIZE\<close> (32767) characters, a successful
  \<open>SetEnv name v\<close> followed immediately by \<open>GetEnv name\<close> succeeds and yields exactly
  \<open>v\<close>. \<open>GetEnv\<close> on a name that is not set returns false and leaves \<open>*value\<close>
  unchanged.
\<close>

theorem SetEnv_GetEnv_roundtrip:
  "(SetEnv accepted env name v = (True, env') \<and> v \<noteq> [] \<and> CHR 0x00 \<notin> set v
      \<and> length v < BUFFER_SIZE
    \<longrightarrow> GetEnv env' name value = Inr (True, v))
   \<and> (env (c_str name) = None \<longrightarrow> GetEnv env name value = Inr (False, value))"
proof (intro conjI impI)
  assume a: "SetEnv accepted env name v = (True, env') \<and> v \<noteq> [] \<and> CHR 0x00 \<notin> set v
      \<and> length v < BUFFER_SIZE"
  then have v: "c_str v = v"
    by (simp add: c_str_no_NUL)
  from a have "SetEnv accepted env name v = (True, env')"
    by simp
  then have "env' = env(c_str name \<mapsto> c_str v)"
    by (rule SetEnv_success)
  with v have "env' (c_str name) = Some v"
    by simp
  then have "GetEnv env' name value = Inr (True, c_str v)"
    using a by (intro GetEnv_set) simp_all
  with v show "GetEnv env' name value = Inr (True, v)"
    by simp
next
  assume "env (c_str name) = None"
  then show "GetEnv env name value = Inr (False, value)"
    by (rule GetEnv_unset)
qed

theorem SetEnv_GetEnv_roundtrip_witness:
  "SetEnv True Map.empty ''VAR'' ''value'' = (True, [''VAR'' \<mapsto> ''value''])
   \<and> GetEnv [''VAR'' \<mapsto> ''value''] ''VAR'' ''old'' = Inr (True, ''value'')
   \<and> GetEnv Map.empty ''VAR'' ''old'' = Inr (False, ''old'')"
proof -
  have s: "SetEnv True Map.empty ''VAR'' ''value'' = (True, [''VAR'' \<mapsto> ''value''])"
    by (simp add: SetEnv_def SetEnvironmentVariableA_def c_str_def)
  have l: "length ''value'' < BUFFER_SIZE"
    by (simp add: BUFFER_SIZE_def)
  have n: "Map.empty (c_str ''VAR'') = (None :: string option)"
    by simp
  from s l n
    SetEnv_GetEnv_roundtrip
      [of True Map.empty "''VAR''" "''value''" "[''VAR'' \<mapsto> ''value'']" "''old''"]
  show ?thesis
    by simp
qed

text \<open>
  C10. For a variable whose value is the empty string, \<open>GetEnv\<close> returns false and
  leaves \<open>*value\<close> unchanged: the platform call reports 0 characters, as it does for
  a variable that is not set, and \<open>GetEnv\<close> gives the same result in both cases.
\<close>

theorem GetEnv_empty_value:
  assumes "env (c_str name) = Some []"
  shows "GetEnv env name value = Inr (False, value)
         \<and> GetEnv env name value = GetEnv (env(c_str name := None)) name value
         \<and> fst (GetEnvironmentVariableA env (c_str name) BUFFER_SIZE) = 0
         \<and> fst (GetEnvironmentVariableA (env(c_str name := None)) (c_str name) BUFFER_SIZE) = 0"
proof -
  have "GetEnv (env(c_str name := None)) name value = Inr (False, value)"
    by (intro GetEnv_unset) simp
  moreover have "GetEnv env name value = Inr (False, value)"
    using assms by (rule GetEnv_empty)
  moreover have "fst (GetEnvironmentVariableA env (c_str name) BUFFER_SIZE) = 0"
    using assms by (simp add: GetEnvironmentVariableA_def BUFFER_SIZE_def)
  moreover have
    "fst (GetEnvironmentVariableA (env(c_str name := None)) (c_str name) BUFFER_SIZE) = 0"
    by (simp add: GetEnvironmentVariableA_def)
  ultimately show ?thesis
    by simp
qed

theorem GetEnv_empty_value_witness:
  "GetEnv [''VAR'' \<mapsto> []] ''VAR'' ''old'' = Inr (False, ''old'')
   \<and> GetEnv [''VAR'' \<mapsto> []] ''VAR'' ''old'' = GetEnv Map.empty ''VAR'' ''old''"
proof -
  let ?env = "[''VAR'' \<mapsto> []] :: environment"
  have empty: "?env (c_str ''VAR'') = Some []"
    by (simp add: c_str_def)
  have unset: "?env(c_str ''VAR'' := None) = Map.empty"
    by (simp add: c_str_def)
  note at_VAR = GetEnv_empty_value [of ?env "''VAR''" "''old''", OF empty]
  from at_VAR have false: "GetEnv ?env ''VAR'' ''old'' = Inr (False, ''old'')"
    by (elim conjE)
  from at_VAR
  have "GetEnv ?env ''VAR'' ''old'' = GetEnv (?env(c_str ''VAR'' := None)) ''VAR'' ''old''"
    by (elim conjE)
  then have "GetEnv ?env ''VAR'' ''old'' = GetEnv Map.empty ''VAR'' ''old''"
    by (simp only: unset)
  with false show ?thesis
    by (intro conjI)
qed

subsection \<open>Random strings\<close>

lemma length_alphabet: "length alphabet = 62"
  by (simp add: alphabet_def)

lemma c_str_alphabet: "c_str alphabet = alphabet"
  by (simp add: c_str_def alphabet_def)

lemma strlen_alphabet: "strlen alphabet = 62"
  by (simp only: strlen_def c_str_alphabet length_alphabet)

text \<open>The loop appends one character for each index from \<open>i\<close> up to \<open>len\<close>.\<close>

lemma GetRandomStr_loop_map:
  "GetRandomStr_loop rand_s len i rand_str =
     rand_str @ map (\<lambda>k. alphabet ! (unat (rand_s k) mod 62)) [i..<len]"
proof (induction rand_s len i rand_str rule: GetRandomStr_loop.induct)
  case (1 rand_s len i rand_str)
  show ?case
  proof (cases "i < len")
    case True
    then have "[i..<len] = i # [Suc i..<len]"
      by (rule upt_conv_Cons)
    moreover from True have "GetRandomStr_loop rand_s len i rand_str =
        GetRandomStr_loop rand_s len (Suc i)
          (rand_str @ [alphabet ! (unat (rand_s i) mod strlen alphabet)])"
      by (subst GetRandomStr_loop.simps) simp
    ultimately show ?thesis
      using True "1.IH" by (simp add: strlen_alphabet)
  next
    case False
    then show ?thesis
      by (subst GetRandomStr_loop.simps) simp
  qed
qed

lemma GetRandomStr_map:
  "GetRandomStr rand_s len = map (\<lambda>k. alphabet ! (unat (rand_s k) mod 62)) [0..<len]"
  by (simp add: GetRandomStr_def GetRandomStr_loop_map)

text \<open>
  C7. For every length \<open>len\<close> and every sequence \<open>rand_s\<close> of random draws,
  \<open>GetRandomStr\<close> returns a string of length exactly \<open>len\<close>; its character at
  position \<open>i\<close> is the character of the alphabet at index (draw \<open>i\<close>) modulo 62; every
  character belongs to the alphabet, which is the 62 characters \<open>A-Z\<close>, \<open>a-z\<close>,
  \<open>0-9\<close> in this order.
\<close>

theorem GetRandomStr_spec:
  "length (GetRandomStr rand_s len) = len
   \<and> (\<forall>i<len. GetRandomStr rand_s len ! i = alphabet ! (unat (rand_s i) mod 62))
   \<and> set (GetRandomStr rand_s len) \<subseteq> set alphabet
   \<and> length alphabet = 62
   \<and> alphabet = ''ABCDEFGHIJKLMNOPQRSTUVWXYZabcdefghijklmnopqrstuvwxyz0123456789''"
proof (intro conjI)
  show "length (GetRandomStr rand_s len) = len"
    by (simp add: GetRandomStr_map)
  show "\<forall>i<len. GetRandomStr rand_s len ! i = alphabet ! (unat (rand_s i) mod 62)"
    by (simp add: GetRandomStr_map)
  show "set (GetRandomStr rand_s len) \<subseteq> set alphabet"
  proof
    fix c
    assume "c \<in> set (GetRandomStr rand_s len)"
    then obtain k where "c = alphabet ! (unat (rand_s k) mod 62)"
      by (auto simp: GetRandomStr_map)
    moreover have "unat (rand_s k) mod 62 < length alphabet"
      by (simp add: length_alphabet)
    ultimately show "c \<in> set alphabet"
      by (simp only: nth_mem)
  qed
  show "length alphabet = 62"
    by (rule length_alphabet)
  show "alphabet = ''ABCDEFGHIJKLMNOPQRSTUVWXYZabcdefghijklmnopqrstuvwxyz0123456789''"
    by (rule alphabet_def)
qed

text \<open>Three draws, 61, 1061 and 2061: the indices are 61, 7 and 15.\<close>

theorem GetRandomStr_spec_witness:
  "length (GetRandomStr (\<lambda>i. of_nat (1000 * i + 61)) 3) = 3
   \<and> GetRandomStr (\<lambda>i. of_nat (1000 * i + 61)) 3 ! 0 = CHR ''9''
   \<and> GetRandomStr (\<lambda>i. of_nat (1000 * i + 61)) 3 ! 1 = CHR ''H''
   \<and> GetRandomStr (\<lambda>i. of_nat (1000 * i + 61)) 3 ! 2 = CHR ''P''"
proof -
  let ?r = "\<lambda>i. of_nat (1000 * i + 61) :: 32 word"
  note spec = GetRandomStr_spec [of ?r 3]
  from spec have len: "length (GetRandomStr ?r 3) = 3"
    by (elim conjE)
  from spec have nth: "i < 3 \<longrightarrow> GetRandomStr ?r 3 ! i = alphabet ! (unat (?r i) mod 62)" for i
    by (elim conjE allE)
  show ?thesis
    using len nth [of 0] nth [of 1] nth [of 2]
    by (simp add: alphabet_def)
qed

subsection \<open>The last error as a string\<close>

lemma GetLastErrorString_zero: "GetLastErrorString 0 FormatMessageA = Inr []"
  by (simp add: GetLastErrorString_def)

lemma GetLastErrorString_message:
  "last_error \<noteq> 0 \<Longrightarrow> FormatMessageA last_error = Some m \<Longrightarrow>
   GetLastErrorString last_error FormatMessageA
     = Inr (''(error: '' @ show_dec (unat last_error) @ ''): '' @ m)"
  by (simp add: GetLastErrorString_def)

lemma GetLastErrorString_access_denied:
  "GetLastErrorString 5 (\<lambda>code. if code = 5 then Some ''Access is denied.'' else None)
     = Inr ''(error: 5): Access is denied.''"
  by code_simp

text \<open>
  C8. The claim asks for a non-empty message for every last-error code other than 0.
  For a code the platform has no message for (here \<open>0x20000000\<close>, a code of the
  application's own), \<open>FormatMessageA\<close> stores nothing in \<open>message_buffer\<close>, and the
  function reads the pointer all the same: it returns no string.
\<close>

theorem GetLastErrorString_no_message:
  "GetLastErrorString 0x20000000 (\<lambda>code. None) = Inl Uninitialised_read"
  by (simp add: GetLastErrorString_def)

subsection \<open>The fatal path of \<open>AsAbsoluteWindowsPath\<close>\<close>

lemma vfprintf_convert:
  "vfprintf (''Couldn'' @ [CHR 0x27] @ ''t convert %s to absoulte Windows path.'') [path]
     = Some (''Couldn'' @ [CHR 0x27] @ ''t convert '' @ path @ '' to absoulte Windows path.'')"
  by simp

lemma vfprintf_percent: "vfprintf ''100%%'' [] = Some ''100%''"
  by simp

lemma vfprintf_not_modelled: "vfprintf ''code %d'' [] = None"
  by simp

text \<open>
  C9. For a path the conversion cannot resolve, \<open>AsAbsoluteWindowsPath\<close> does not
  return: it appends to the standard error stream the prefix \<open>LAUNCHER ERROR: \<close>,
  the message with the path in it and a newline, and the process exits with code 1.
  For a path the conversion resolves, it returns the converted path and writes nothing.
\<close>

theorem AsAbsoluteWindowsPath_spec:
  "(convert path = None \<longrightarrow>
      AsAbsoluteWindowsPath convert path p =
        (p\<lparr>stderr := stderr p @ ''LAUNCHER ERROR: ''
              @ (''Couldn'' @ [CHR 0x27] @ ''t convert '' @ path @ '' to absoulte Windows path.'')
              @ [CHR 0x0A]\<rparr>,
         Exits 1))
   \<and> (\<forall>wpath. convert path = Some wpath \<longrightarrow>
        AsAbsoluteWindowsPath convert path p = (p, Returns wpath))"
  unfolding AsAbsoluteWindowsPath_def die_def vfprintf_convert by simp

theorem AsAbsoluteWindowsPath_spec_witness:
  "AsAbsoluteWindowsPath (\<lambda>path. if path = ''ok'' then Some [0x5C, 0x5C, 0x3F] else None)
       ''bad'' \<lparr>stderr = []\<rparr>
     = (\<lparr>stderr = ''LAUNCHER ERROR: Couldn'' @ [CHR 0x27]
           @ ''t convert bad to absoulte Windows path.'' @ [CHR 0x0A]\<rparr>, Exits 1)
   \<and> AsAbsoluteWindowsPath (\<lambda>path. if path = ''ok'' then Some [0x5C, 0x5C, 0x3F] else None)
       ''ok'' \<lparr>stderr = []\<rparr>
     = (\<lparr>stderr = []\<rparr>, Returns [0x5C, 0x5C, 0x3F])"
proof -
  let ?c = "\<lambda>path. if path = ''ok'' then Some [0x5C, 0x5C, 0x3F :: 16 word] else None"
  let ?p = "\<lparr>stderr = []\<rparr>"
  have bad: "?c ''bad'' = None"
    by simp
  have ok: "?c ''ok'' = Some [0x5C, 0x5C, 0x3F]"
    by simp
  note fatal = AsAbsoluteWindowsPath_spec [of ?c "''bad''" ?p, THEN conjunct1, THEN mp, OF bad]
  note returns =
    AsAbsoluteWindowsPath_spec [of ?c "''ok''" ?p, THEN conjunct2, THEN spec, THEN mp, OF ok]
  from fatal have "AsAbsoluteWindowsPath ?c ''bad'' ?p =
        (\<lparr>stderr = ''LAUNCHER ERROR: Couldn'' @ [CHR 0x27]
           @ ''t convert bad to absoulte Windows path.'' @ [CHR 0x0A]\<rparr>, Exits 1)"
    by simp
  with returns show ?thesis
    by (intro conjI)
qed

end
